theory Spec2Isabelle
  imports Complex_Main
begin

section \<open>The whiteboard's interaction engine (src/App.tsx)\<close>

text \<open>
  The component \<open>App\<close> keeps its state in React hooks and changes it in event handlers.
  Each handler is embedded as a function from the state of the render it was created in
  (and the event) to the next state. JavaScript numbers are embedded as \<^typ>\<open>real\<close>:
  rounding, \<open>NaN\<close> and the infinities are not represented. An optional field
  (\<open>width?: number\<close>) is an \<^typ>\<open>'a option\<close>, and the truthiness tests the source
  applies to such fields are written out (\<open>truthy\<close>, \<open>orElse\<close>).
\<close>

subsection \<open>Data model\<close>

text \<open>
  The interfaces of \<open>types.ts\<close>, field by field. Record fields are constants in HOL, so
  the fields of a record carry a short prefix where the source reuses a name (\<open>x\<close>,
  \<open>y\<close>, \<open>startX\<close>, ...) or where the name is taken (\<open>id\<close>, \<open>type\<close>).
\<close>

record Point =
  pt_x :: real
  pt_y :: real

datatype ToolType =
  Select | Pen | Highlighter | Text | Sticky | Rect | Circle | Triangle | Rhombus
  | Arrow | Line | Cylinder

text \<open>The type of an element's \<open>type\<close> field, \<open>ToolType | 'image'\<close>.\<close>

datatype ElementType = OfTool ToolType | Image

record BoardElement =
  el_id :: string
  el_type :: ElementType
  el_x :: real
  el_y :: real
  width :: "real option"
  height :: "real option"
  rotation :: "real option"
  zIndex :: int
  content :: "string option"
  points :: "Point list option"
  color :: "string option"
  fillColor :: "string option"
  strokeColor :: "string option"
  textColor :: "string option"
  strokeWidth :: "real option"
  fontSize :: "real option"

record ViewTransform =
  vt_x :: real
  vt_y :: real
  scale :: real

record ToolConfig =
  cfg_color :: string
  cfg_width :: real

record InitialPosition =
  ip_id :: string
  ip_x :: real
  ip_y :: real

record DragInfo =
  isDragging :: bool
  drag_startX :: real
  drag_startY :: real
  initialPositions :: "InitialPosition list"

text \<open>\<open>ResizeHandleDirection\<close>: the string literals \<open>n s e w ne nw se sw\<close>, and the
  string each of them is.\<close>

datatype ResizeHandleDirection =
  Dir_n | Dir_s | Dir_e | Dir_w | Dir_ne | Dir_nw | Dir_se | Dir_sw

fun directionString :: "ResizeHandleDirection \<Rightarrow> string" where
  "directionString Dir_n = ''n''"
| "directionString Dir_s = ''s''"
| "directionString Dir_e = ''e''"
| "directionString Dir_w = ''w''"
| "directionString Dir_ne = ''ne''"
| "directionString Dir_nw = ''nw''"
| "directionString Dir_se = ''se''"
| "directionString Dir_sw = ''sw''"

text \<open>\<open>handle\<close> is a \<open>ResizeHandleDirection | null\<close>.\<close>

record ResizeInfo =
  isResizing :: bool
  handle :: "ResizeHandleDirection option"
  resize_startX :: real
  resize_startY :: real
  initialX :: real
  initialY :: real
  initialWidth :: real
  initialHeight :: real

record RotateInfo =
  isRotating :: bool
  rot_startX :: real
  rot_startY :: real
  initialRotation :: real
  rot_centerX :: real
  rot_centerY :: real

record ContextMenuState =
  cm_isOpen :: bool
  cm_x :: real
  cm_y :: real
  cm_selectedIds :: "string list"

text \<open>The rectangle \<open>containerRef.current.getBoundingClientRect()\<close>.\<close>

record DOMRect =
  rect_left :: real
  rect_top :: real
  rect_width :: real
  rect_height :: real

text \<open>
  The state hooks of \<open>App\<close> that the canvas engine reads or writes, and the one ref:
  \<open>containerRef\<close> is \<open>None\<close> while \<open>containerRef.current\<close> is null. The hooks of the
  summary dialog (\<open>summary\<close>, \<open>isSummaryOpen\<close>, \<open>isProcessingAI\<close>) are left out.
\<close>

record AppState =
  history :: "BoardElement list list"
  historyStep :: nat
  elements :: "BoardElement list"
  penConfig :: ToolConfig
  markerConfig :: ToolConfig
  isConfigMenuOpen :: bool
  showGrid :: bool
  isCommandPaletteOpen :: bool
  activeTool :: ToolType
  selectedIds :: "string list"
  viewTransform :: ViewTransform
  isPanning :: bool
  panStart :: Point
  creationStart :: "Point option"
  dragInfo :: DragInfo
  resizeInfo :: ResizeInfo
  rotateInfo :: RotateInfo
  isDrawing :: bool
  contextMenu :: ContextMenuState
  containerRef :: "DOMRect option"

text \<open>What the handlers read of a mouse event; \<open>targetIsBackground\<close> is the test
  \<open>e.target === containerRef.current || e.target.id === 'main-svg-layer'\<close>.\<close>

record MouseEvent =
  button :: nat
  clientX :: real
  clientY :: real
  shiftKey :: bool
  targetIsBackground :: bool

text \<open>The local object \<open>bounds\<close> of \<open>handleAlign\<close>.\<close>

record Bounds =
  b_minX :: real
  b_maxX :: real
  b_minY :: real
  b_maxY :: real

datatype error = TypeError

text \<open>The initial values of the hooks (lines 21-94).\<close>

definition initialState :: "DOMRect option \<Rightarrow> AppState" where
  "initialState c = \<lparr>
     history = [[]], historyStep = 0, elements = [],
     penConfig = \<lparr>cfg_color = ''#1f2937'', cfg_width = 3\<rparr>,
     markerConfig = \<lparr>cfg_color = ''#fde047'', cfg_width = 25\<rparr>,
     isConfigMenuOpen = False, showGrid = True, isCommandPaletteOpen = False,
     activeTool = Select, selectedIds = [],
     viewTransform = \<lparr>vt_x = 0, vt_y = 0, scale = 1\<rparr>,
     isPanning = False, panStart = \<lparr>pt_x = 0, pt_y = 0\<rparr>,
     creationStart = None,
     dragInfo = \<lparr>isDragging = False, drag_startX = 0, drag_startY = 0,
       initialPositions = []\<rparr>,
     resizeInfo = \<lparr>isResizing = False, handle = None, resize_startX = 0,
       resize_startY = 0, initialX = 0, initialY = 0, initialWidth = 0,
       initialHeight = 0\<rparr>,
     rotateInfo = \<lparr>isRotating = False, rot_startX = 0, rot_startY = 0,
       initialRotation = 0, rot_centerX = 0, rot_centerY = 0\<rparr>,
     isDrawing = False,
     contextMenu = \<lparr>cm_isOpen = False, cm_x = 0, cm_y = 0, cm_selectedIds = []\<rparr>,
     containerRef = c\<rparr>"

subsection \<open>JavaScript idioms\<close>

text \<open>\<open>v && ...\<close> on an optional number: \<open>undefined\<close> and \<open>0\<close> are falsy.\<close>

definition truthy :: "real option \<Rightarrow> bool" where
  "truthy v = (case v of None \<Rightarrow> False | Some r \<Rightarrow> r \<noteq> 0)"

text \<open>\<open>v || d\<close> on an optional number.\<close>

definition orElse :: "real option \<Rightarrow> real \<Rightarrow> real" where
  "orElse v d = (case v of None \<Rightarrow> d | Some r \<Rightarrow> if r = 0 then d else r)"

text \<open>\<open>h?.includes(c)\<close> for a one-character \<open>c\<close>: false when \<open>h\<close> is null.\<close>

definition includesChar :: "ResizeHandleDirection option \<Rightarrow> char \<Rightarrow> bool" where
  "includesChar h c = (case h of None \<Rightarrow> False | Some d \<Rightarrow> c \<in> set (directionString d))"

text \<open>\<open>Math.min(...vs)\<close> and \<open>Math.max(...vs)\<close> of a non-empty array, and the same
  value reached by folding \<open>Math.min\<close> over it from \<open>Infinity\<close>
  (\<open>Math.min(Infinity, v) = v\<close>). Every call in the model is on a non-empty list.\<close>

definition Math_min :: "real list \<Rightarrow> real" where
  "Math_min vs = fold min (tl vs) (hd vs)"

definition Math_max :: "real list \<Rightarrow> real" where
  "Math_max vs = fold max (tl vs) (hd vs)"

subsection \<open>History (lines 36-45, 191-201)\<close>

text \<open>
  The effect of lines 36-38 runs after every render in which \<open>history\<close> or
  \<open>historyStep\<close> changed and stores \<open>history[historyStep]\<close> as the element collection.
  It is applied inside the three operations that write those hooks. An index out of range
  would store \<open>undefined\<close>; lemma \<open>historyStep_in_range\<close> shows the operations never
  produce one, and the model leaves the collection alone there.
\<close>

definition historyEffect :: "AppState \<Rightarrow> AppState" where
  "historyEffect s =
     (if historyStep s < length (history s)
      then s\<lparr>elements := history s ! historyStep s\<rparr> else s)"

definition addToHistory :: "BoardElement list \<Rightarrow> AppState \<Rightarrow> AppState" where
  "addToHistory newElements s =
     (let newHistory = take (historyStep s + 1) (history s) @ [newElements]
      in historyEffect (s\<lparr>history := newHistory, historyStep := length newHistory - 1\<rparr>))"

definition handleUndo :: "AppState \<Rightarrow> AppState" where
  "handleUndo s =
     (if historyStep s > 0 then historyEffect (s\<lparr>historyStep := historyStep s - 1\<rparr>)
      else s)"

definition handleRedo :: "AppState \<Rightarrow> AppState" where
  "handleRedo s =
     (if historyStep s < length (history s) - 1
      then historyEffect (s\<lparr>historyStep := historyStep s + 1\<rparr>) else s)"

text \<open>The state after committing the collections \<open>cs\<close> one after the other.\<close>

definition commits :: "BoardElement list list \<Rightarrow> AppState \<Rightarrow> AppState" where
  "commits cs s = foldl (\<lambda>t c. addToHistory c t) s cs"

text \<open>The cursor is a valid index and the store shows the snapshot under it.\<close>

definition history_ok :: "AppState \<Rightarrow> bool" where
  "history_ok s \<longleftrightarrow>
     historyStep s < length (history s) \<and> elements s = history s ! historyStep s"

subsection \<open>More JavaScript idioms\<close>

text \<open>\<open>v < d\<close> on an optional number: the comparison with \<open>undefined\<close> is false.\<close>

definition numLess :: "real option \<Rightarrow> real \<Rightarrow> bool" where
  "numLess v d = (case v of None \<Rightarrow> False | Some r \<Rightarrow> r < d)"

text \<open>A string in a condition: \<open>null\<close>, \<open>undefined\<close> and the empty string are falsy.\<close>

definition truthyString :: "string option \<Rightarrow> bool" where
  "truthyString v = (case v of None \<Rightarrow> False | Some t \<Rightarrow> t \<noteq> [])"

definition Math_atan2 :: "real \<Rightarrow> real \<Rightarrow> real" where
  "Math_atan2 dy dx =
     (if 0 < dx then arctan (dy / dx)
      else if dx < 0 \<and> 0 \<le> dy then arctan (dy / dx) + pi
      else if dx < 0 then arctan (dy / dx) - pi
      else if 0 < dy then pi / 2
      else if dy < 0 then - pi / 2
      else 0)"

definition Math_round :: "real \<Rightarrow> real" where
  "Math_round v = of_int \<lfloor>v + 1 / 2\<rfloor>"

subsection \<open>Coordinates (lines 99-115)\<close>

definition isDrawingMode :: "AppState \<Rightarrow> bool" where
  "isDrawingMode s \<longleftrightarrow> activeTool s = Pen \<or> activeTool s = Highlighter"

text \<open>\<open>screenToWorld\<close> reads \<open>viewTransform\<close> from the render's state.
  \<open>handleWheel\<close> (lines 464-481) is not embedded: what is asked of it is an equality
  between results of rounded multiplications and divisions, which arithmetic over
  \<^typ>\<open>real\<close> cannot decide.\<close>

definition screenToWorld :: "AppState \<Rightarrow> real \<Rightarrow> real \<Rightarrow> Point" where
  "screenToWorld s screenX screenY =
     \<lparr>pt_x = (screenX - vt_x (viewTransform s)) / scale (viewTransform s),
      pt_y = (screenY - vt_y (viewTransform s)) / scale (viewTransform s)\<rparr>"

definition getMousePos :: "MouseEvent \<Rightarrow> AppState \<Rightarrow> Point" where
  "getMousePos e s =
     (case containerRef s of
        None \<Rightarrow> \<lparr>pt_x = 0, pt_y = 0\<rparr>
      | Some rect \<Rightarrow> screenToWorld s (clientX e - rect_left rect) (clientY e - rect_top rect))"

subsection \<open>Paste (lines 251-285, 867-881)\<close>

text \<open>\<open>uuidv4()\<close> is the environment's: a handler that calls it once takes the identifier
  it returned as \<open>newId\<close>. \<open>text.length\<close> is the length of the character list.\<close>

definition createTextElementAtCenter :: "string \<Rightarrow> string \<Rightarrow> AppState \<Rightarrow> BoardElement" where
  "createTextElementAtCenter newId text s =
     (let vt = viewTransform s;
          cX = (case containerRef s of None \<Rightarrow> 0
                | Some rect \<Rightarrow> (rect_width rect / 2 - vt_x vt) / scale vt);
          cY = (case containerRef s of None \<Rightarrow> 0
                | Some rect \<Rightarrow> (rect_height rect / 2 - vt_y vt) / scale vt);
          isShort = (length text < 50)
      in \<lparr>el_id = newId,
          el_type = OfTool (if isShort then Sticky else Text),
          el_x = cX - 100,
          el_y = cY - 50,
          width = Some 200,
          height = Some (if isShort then 200 else 100),
          rotation = None,
          zIndex = int (length (elements s)) + 1,
          content = Some text,
          points = None,
          color = Some (if isShort then ''#fef3c7'' else ''#1f2937''),
          fillColor = None, strokeColor = None, textColor = None,
          strokeWidth = None, fontSize = None\<rparr>)"

text \<open>
  \<open>addToHistory\<close> as a memoised callback calls it. \<open>useCallback\<close> hands out the function
  of the last render in which one of its dependencies changed identity, and that function
  reads \<open>history\<close> and \<open>historyStep\<close> of its own render, \<open>render\<close>, while the writes go
  to the current state.
\<close>

definition addToHistoryOf :: "AppState \<Rightarrow> BoardElement list \<Rightarrow> AppState \<Rightarrow> AppState" where
  "addToHistoryOf render newElements s =
     (let newHistory = take (historyStep render + 1) (history render) @ [newElements]
      in historyEffect (s\<lparr>history := newHistory, historyStep := length newHistory - 1\<rparr>))"

text \<open>
  \<open>handlePaste\<close> is \<open>useCallback(..., [elements, viewTransform])\<close>: \<open>render\<close> is the
  state of the last render in which \<open>elements\<close> or \<open>viewTransform\<close> changed identity. Its
  \<open>elements\<close> and \<open>viewTransform\<close> are the current ones; its \<open>history\<close> and
  \<open>historyStep\<close> are older when a commit has since stored the same array (the pointer-up
  of a gesture commits \<open>prev\<close> or \<open>elements\<close> itself). \<open>clipboard\<close> is what
  \<open>navigator.clipboard.readText()\<close> resolved to, \<open>None\<close> when it was rejected (the handler
  then only alerts). \<open>containerRef\<close> is a ref and read from the current state.
\<close>

definition handlePaste :: "string \<Rightarrow> string option \<Rightarrow> AppState \<Rightarrow> AppState \<Rightarrow> AppState" where
  "handlePaste newId clipboard render s =
     (case clipboard of
        None \<Rightarrow> s
      | Some text \<Rightarrow>
          if text \<noteq> [] then
            let newEl = createTextElementAtCenter newId text
                  (render\<lparr>containerRef := containerRef s\<rparr>);
                newEls = elements render @ [newEl]
            in addToHistoryOf render newEls (s\<lparr>elements := newEls\<rparr>)
          else s)"

text \<open>
  The window's paste listener. \<open>text\<close> is \<open>e.clipboardData?.getData('text')\<close>. The effect
  that installs the listener depends on \<open>viewTransform\<close> and \<open>isCommandPaletteOpen\<close> only,
  so the \<open>createTextElementAtCenter\<close> it calls may belong to an earlier render:
  \<open>capturedElements\<close> is the collection that render saw, read for the new \<open>zIndex\<close>. The
  element is appended to the current collection (\<open>setElements(prev => ...)\<close>).
\<close>

definition pasteListener ::
  "string \<Rightarrow> string option \<Rightarrow> BoardElement list \<Rightarrow> AppState \<Rightarrow> AppState" where
  "pasteListener newId text capturedElements s =
     (if isCommandPaletteOpen s then s
      else case text of
        None \<Rightarrow> s
      | Some t \<Rightarrow>
          if t \<noteq> [] then
            let newEl = createTextElementAtCenter newId t (s\<lparr>elements := capturedElements\<rparr>)
            in s\<lparr>elements := elements s @ [newEl]\<rparr>
          else s)"

subsection \<open>Alignment (lines 305-364)\<close>

definition alignElement :: "string \<Rightarrow> Bounds \<Rightarrow> BoardElement \<Rightarrow> BoardElement" where
  "alignElement type b el =
     (let cX = (b_minX b + b_maxX b) / 2;
          cY = (b_minY b + b_maxY b) / 2;
          newX = (if type = ''left'' then b_minX b
                  else if type = ''center'' then cX - orElse (width el) 0 / 2
                  else if type = ''right'' then b_maxX b - orElse (width el) 0
                  else el_x el);
          newY = (if type = ''top'' then b_minY b
                  else if type = ''middle'' then cY - orElse (height el) 0 / 2
                  else if type = ''bottom'' then b_maxY b - orElse (height el) 0
                  else el_y el)
      in el\<lparr>el_x := newX, el_y := newY\<rparr>)"

text \<open>The bounds of two or more elements: the loop of lines 333-338.\<close>

definition unionBounds :: "BoardElement list \<Rightarrow> Bounds" where
  "unionBounds selectedEls =
     \<lparr>b_minX = Math_min (map el_x selectedEls),
      b_maxX = Math_max (map (\<lambda>el. el_x el + orElse (width el) 0) selectedEls),
      b_minY = Math_min (map el_y selectedEls),
      b_maxY = Math_max (map (\<lambda>el. el_y el + orElse (height el) 0) selectedEls)\<rparr>"

text \<open>The bounds of the viewport in world coordinates (lines 318-330).\<close>

definition viewportBounds :: "DOMRect \<Rightarrow> ViewTransform \<Rightarrow> Bounds" where
  "viewportBounds rect vt =
     (let viewW = rect_width rect / scale vt;
          viewH = rect_height rect / scale vt;
          viewX = - vt_x vt / scale vt;
          viewY = - vt_y vt / scale vt
      in \<lparr>b_minX = viewX, b_maxX = viewX + viewW, b_minY = viewY, b_maxY = viewY + viewH\<rparr>)"

text \<open>
  \<open>handleAlign\<close>. With one selected element and no container the source keeps the bounds
  \<open>\<plusminus>Infinity\<close> and writes non-finite coordinates; the result is \<open>None\<close> there, since
  \<^typ>\<open>real\<close> has no such values. Every other path gives \<open>Some\<close> state.
\<close>

definition handleAlign :: "string \<Rightarrow> AppState \<Rightarrow> AppState option" where
  "handleAlign type s =
     (if selectedIds s = [] then Some s
      else
        let selectedEls = filter (\<lambda>el. el_id el \<in> set (selectedIds s)) (elements s)
        in if selectedEls = [] then Some s
           else
             let bounds =
                   (if length selectedEls = 1
                    then map_option (\<lambda>rect. viewportBounds rect (viewTransform s)) (containerRef s)
                    else Some (unionBounds selectedEls))
             in case bounds of
                  None \<Rightarrow> None
                | Some b \<Rightarrow>
                    let newElements =
                          map (\<lambda>el. if el_id el \<notin> set (selectedIds s) then el
                                     else alignElement type b el) (elements s)
                    in Some (addToHistory newElements (s\<lparr>elements := newElements\<rparr>)))"

subsection \<open>Context-menu actions (lines 366-430)\<close>

text \<open>
  The loop of the \<open>duplicate\<close> action over \<open>targetIds\<close>. \<open>uuid k\<close> is the identifier the
  \<open>k\<close>-th call of \<open>uuidv4()\<close> in this action returns; the loop calls it once for every target
  it finds, so the next call is number \<open>length duplicates\<close>. \<open>n\<close> is \<open>elements.length\<close>.
\<close>

fun duplicateLoop ::
  "(nat \<Rightarrow> string) \<Rightarrow> BoardElement list \<Rightarrow> nat \<Rightarrow> string list \<Rightarrow> BoardElement list
     \<Rightarrow> BoardElement list" where
  "duplicateLoop uuid newElements n [] duplicates = duplicates"
| "duplicateLoop uuid newElements n (i # targetIds) duplicates =
     (case find (\<lambda>e. el_id e = i) newElements of
        None \<Rightarrow> duplicateLoop uuid newElements n targetIds duplicates
      | Some el \<Rightarrow>
          duplicateLoop uuid newElements n targetIds
            (duplicates @
              [el\<lparr>el_id := uuid (length duplicates),
                  el_x := el_x el + 20,
                  el_y := el_y el + 20,
                  zIndex := int n + int (length duplicates) + 1\<rparr>]))"

definition resolveTargetIds :: "string option \<Rightarrow> string list \<Rightarrow> string list" where
  "resolveTargetIds elementId selected =
     (let targetIds =
            (if truthyString elementId \<and> the elementId \<notin> set selected
             then [the elementId] else selected)
      in if targetIds = [] \<and> truthyString elementId then [the elementId] else targetIds)"

text \<open>\<open>handleContextMenuAction\<close>. The result is an option only because of \<open>handleAlign\<close>.
  \<open>clipboard\<close> and \<open>pasteRender\<close> are for the \<open>paste\<close> action, which hands over to
  the memoised \<open>handlePaste\<close>; the function itself is made anew in every render.\<close>

definition handleContextMenuAction ::
  "(nat \<Rightarrow> string) \<Rightarrow> string option \<Rightarrow> AppState \<Rightarrow> string \<Rightarrow> string option
     \<Rightarrow> AppState \<Rightarrow> AppState option" where
  "handleContextMenuAction uuid clipboard pasteRender action elementId s =
     (let targetIds = resolveTargetIds elementId (selectedIds s)
      in if take 6 action = ''align-'' then handleAlign (drop 6 action) s
         else if action = ''delete'' then
           (let newElements = filter (\<lambda>el. el_id el \<notin> set targetIds) (elements s)
            in Some (addToHistory newElements (s\<lparr>elements := newElements, selectedIds := []\<rparr>)))
         else if action = ''duplicate'' then
           (let duplicates = duplicateLoop uuid (elements s) (length (elements s)) targetIds [];
                newElements = elements s @ duplicates
            in Some (addToHistory newElements
                 (s\<lparr>elements := newElements, selectedIds := map el_id duplicates\<rparr>)))
         else if action = ''front'' then
           (let maxZ = fold max (map zIndex (elements s)) 0;
                newElements = sort_key zIndex
                  (map (\<lambda>el. if el_id el \<in> set targetIds then el\<lparr>zIndex := maxZ + 1\<rparr> else el)
                     (elements s))
            in Some (addToHistory newElements (s\<lparr>elements := newElements\<rparr>)))
         else if action = ''back'' then
           (let minZ = fold min (map zIndex (elements s)) 0;
                newElements = sort_key zIndex
                  (map (\<lambda>el. if el_id el \<in> set targetIds then el\<lparr>zIndex := minZ - 1\<rparr> else el)
                     (elements s))
            in Some (addToHistory newElements (s\<lparr>elements := newElements\<rparr>)))
         else if action = ''paste'' then Some (handlePaste (uuid 0) clipboard pasteRender s)
         else Some (addToHistory (elements s) s))"

subsection \<open>Normalization of drawings (lines 433-460)\<close>

definition normalizeDrawing :: "BoardElement \<Rightarrow> BoardElement" where
  "normalizeDrawing el =
     (case points el of
        None \<Rightarrow> el
      | Some ps \<Rightarrow>
          if ps = [] then el
          else
            let xs = map pt_x ps;
                ys = map pt_y ps;
                minX = Math_min xs;
                minY = Math_min ys;
                maxX = Math_max xs;
                maxY = Math_max ys;
                padding = 5;
                w = max 20 (maxX - minX + padding * 2);
                h = max 20 (maxY - minY + padding * 2);
                normalizedPoints =
                  map (\<lambda>p. \<lparr>pt_x = pt_x p - minX + padding, pt_y = pt_y p - minY + padding\<rparr>) ps
            in el\<lparr>el_x := minX - padding, el_y := minY - padding,
                  width := Some w, height := Some h, points := Some normalizedPoints\<rparr>)"

subsection \<open>Pointer-down (lines 483-566)\<close>

text \<open>The element a pointer-down with the pen or the highlighter creates (lines 512-527).\<close>

definition newDrawing :: "string \<Rightarrow> Point \<Rightarrow> AppState \<Rightarrow> BoardElement" where
  "newDrawing newPathId pos s =
     (let config = (if activeTool s = Pen then penConfig s else markerConfig s)
      in \<lparr>el_id = newPathId,
          el_type = OfTool (activeTool s),
          el_x = 0,
          el_y = 0,
          width = Some (pt_x pos + cfg_width config * 2),
          height = Some (pt_y pos + cfg_width config * 2),
          rotation = Some 0,
          zIndex = (if activeTool s = Highlighter then 0 else int (length (elements s)) + 1),
          content = None,
          points = Some [pos],
          color = Some (cfg_color config),
          fillColor = None, strokeColor = None, textColor = None,
          strokeWidth = Some (cfg_width config),
          fontSize = None\<rparr>)"

text \<open>The element a pointer-down with any other tool but \<open>select\<close> creates
  (lines 535-555).\<close>

definition newShape :: "string \<Rightarrow> Point \<Rightarrow> AppState \<Rightarrow> BoardElement" where
  "newShape newId pos s =
     (let isSticky = (activeTool s = Sticky);
          isText = (activeTool s = Text)
      in \<lparr>el_id = newId,
          el_type = OfTool (activeTool s),
          el_x = pt_x pos,
          el_y = pt_y pos,
          width = Some 0,
          height = Some 0,
          rotation = Some 0,
          zIndex = int (length (elements s)) + 1,
          content = (if isSticky \<or> isText then Some ''Double click to edit'' else None),
          points = None,
          color = Some (if isSticky then ''#fef3c7''
                        else if isText then ''#1f2937'' else ''transparent''),
          fillColor = (if isSticky then Some ''#fef3c7''
                       else if isText then None else Some ''transparent''),
          strokeColor = (if isSticky \<or> isText then None else Some ''#000000''),
          textColor = None,
          strokeWidth = Some 3,
          fontSize = Some (if isText then 24 else 18)\<rparr>)"

definition handleMouseDown :: "string \<Rightarrow> MouseEvent \<Rightarrow> AppState \<Rightarrow> AppState" where
  "handleMouseDown newId e s =
     (if button e = 2 then s
      else
        let s1 = (if cm_isOpen (contextMenu s)
                  then s\<lparr>contextMenu := (contextMenu s)\<lparr>cm_isOpen := False\<rparr>\<rparr> else s)
        in if isResizing (resizeInfo s) \<or> isRotating (rotateInfo s) then s1
           else
             let isBackground = targetIsBackground e;
                 pos = getMousePos e s
             in if activeTool s = Select \<and> isBackground then
                  s1\<lparr>isPanning := True,
                     panStart := \<lparr>pt_x = clientX e, pt_y = clientY e\<rparr>,
                     selectedIds := []\<rparr>
                else if isDrawingMode s then
                  s1\<lparr>isDrawing := True, elements := elements s @ [newDrawing newId pos s]\<rparr>
                else if activeTool s \<noteq> Select then
                  s1\<lparr>elements := elements s @ [newShape newId pos s],
                     selectedIds := [newId],
                     creationStart := Some pos\<rparr>
                else if isBackground then s1\<lparr>selectedIds := []\<rparr>
                else s1)"

subsection \<open>Pointer-move (lines 568-705)\<close>

text \<open>The new geometry of the element being resized (lines 601-624): \<open>dx\<close>, \<open>dy\<close> are
  the pointer's offsets from the start of the gesture.\<close>

definition resizeElement :: "ResizeInfo \<Rightarrow> real \<Rightarrow> real \<Rightarrow> BoardElement \<Rightarrow> BoardElement" where
  "resizeElement ri dx dy el =
     (let h = handle ri;
          w1 = (if includesChar h CHR ''e'' then initialWidth ri + dx else initialWidth ri);
          w2 = (if includesChar h CHR ''w'' then w1 - dx else w1);
          x2 = (if includesChar h CHR ''w'' then initialX ri + dx else initialX ri);
          h1 = (if includesChar h CHR ''s'' then initialHeight ri + dy else initialHeight ri);
          h2 = (if includesChar h CHR ''n'' then h1 - dy else h1);
          y2 = (if includesChar h CHR ''n'' then initialY ri + dy else initialY ri);
          x3 = (if w2 < 20 \<and> includesChar h CHR ''w''
                then initialX ri + initialWidth ri - 20 else x2);
          w3 = (if w2 < 20 then 20 else w2);
          y3 = (if h2 < 20 \<and> includesChar h CHR ''n''
                then initialY ri + initialHeight ri - 20 else y2);
          h3 = (if h2 < 20 then 20 else h2)
      in el\<lparr>el_x := x3, el_y := y3, width := Some w3, height := Some h3\<rparr>)"

text \<open>The new geometry of the element being created (lines 637-669).\<close>

definition createGeometry :: "Point \<Rightarrow> Point \<Rightarrow> bool \<Rightarrow> BoardElement \<Rightarrow> BoardElement" where
  "createGeometry start current shift el =
     (if el_type el = OfTool Line \<or> el_type el = OfTool Arrow then
        let dx = pt_x current - pt_x start;
            dy = pt_y current - pt_y start;
            len = sqrt (dx * dx + dy * dy);
            angle = Math_atan2 dy dx * (180 / pi);
            midX = (pt_x start + pt_x current) / 2;
            midY = (pt_y start + pt_y current) / 2;
            h = 20
        in el\<lparr>width := Some (max 20 len), height := Some h,
              el_x := midX - max 20 len / 2, el_y := midY - h / 2,
              rotation := Some angle\<rparr>
      else
        let minX = min (pt_x start) (pt_x current);
            minY = min (pt_y start) (pt_y current);
            w = \<bar>pt_x current - pt_x start\<bar>;
            h = \<bar>pt_y current - pt_y start\<bar>;
            w' = (if shift then max w h else w);
            h' = (if shift then max w h else h)
        in el\<lparr>el_x := minX, el_y := minY, width := Some w', height := Some h'\<rparr>)"

text \<open>
  \<open>handleMouseMove\<close>. While drawing it reads \<open>prev[prev.length - 1].points\<close>, which
  throws a \<open>TypeError\<close> on an empty collection.
\<close>

definition handleMouseMove :: "MouseEvent \<Rightarrow> AppState \<Rightarrow> error + AppState" where
  "handleMouseMove e s =
     (let pos = getMousePos e s
      in if isPanning s then
           (let dx = clientX e - pt_x (panStart s);
                dy = clientY e - pt_y (panStart s);
                vt = viewTransform s
            in Inr (s\<lparr>viewTransform := vt\<lparr>vt_x := vt_x vt + dx, vt_y := vt_y vt + dy\<rparr>,
                      panStart := \<lparr>pt_x = clientX e, pt_y = clientY e\<rparr>\<rparr>))
         else if isRotating (rotateInfo s) \<and> length (selectedIds s) = 1 then
           (let dx = pt_x pos - rot_centerX (rotateInfo s);
                dy = pt_y pos - rot_centerY (rotateInfo s);
                angle0 = Math_atan2 dy dx * (180 / pi) + 90;
                angle = (if shiftKey e then Math_round (angle0 / 15) * 15 else angle0)
            in Inr (s\<lparr>elements :=
                 map (\<lambda>el. if el_id el = selectedIds s ! 0 then el\<lparr>rotation := Some angle\<rparr>
                            else el) (elements s)\<rparr>))
         else if isResizing (resizeInfo s) \<and> length (selectedIds s) = 1 then
           (let dx = pt_x pos - resize_startX (resizeInfo s);
                dy = pt_y pos - resize_startY (resizeInfo s)
            in Inr (s\<lparr>elements :=
                 map (\<lambda>el. if el_id el \<noteq> selectedIds s ! 0 then el
                            else resizeElement (resizeInfo s) dx dy el) (elements s)\<rparr>))
         else if creationStart s \<noteq> None \<and> length (selectedIds s) = 1 then
           Inr (s\<lparr>elements :=
                 map (\<lambda>el. if el_id el \<noteq> selectedIds s ! 0 then el
                            else createGeometry (the (creationStart s)) pos (shiftKey e) el)
                   (elements s)\<rparr>)
         else if isDrawing s then
           (case elements s of
              [] \<Rightarrow> Inl TypeError
            | _ # _ \<Rightarrow>
                let lastEl = last (elements s)
                in case points lastEl of
                     None \<Rightarrow> Inr s
                   | Some ps \<Rightarrow>
                       let newPoints = ps @ [pos];
                           padding = orElse (strokeWidth lastEl) 5 * 2;
                           newWidth = max (orElse (width lastEl) 0) (pt_x pos + padding);
                           newHeight = max (orElse (height lastEl) 0) (pt_y pos + padding)
                       in Inr (s\<lparr>elements :=
                            map (\<lambda>el. if el_id el = el_id lastEl
                                       then el\<lparr>points := Some newPoints, width := Some newWidth,
                                              height := Some newHeight\<rparr>
                                       else el) (elements s)\<rparr>))
         else if isDragging (dragInfo s) \<and> initialPositions (dragInfo s) \<noteq> [] then
           (let dx = pt_x pos - drag_startX (dragInfo s);
                dy = pt_y pos - drag_startY (dragInfo s)
            in Inr (s\<lparr>elements :=
                 map (\<lambda>el. case find (\<lambda>p. ip_id p = el_id el) (initialPositions (dragInfo s)) of
                              Some initialPos \<Rightarrow>
                                el\<lparr>el_x := ip_x initialPos + dx, el_y := ip_y initialPos + dy\<rparr>
                            | None \<Rightarrow> el) (elements s)\<rparr>))
         else Inr s)"

subsection \<open>Pointer-up (lines 707-738)\<close>

text \<open>The resets every pointer-up ends with (lines 732-737).\<close>

definition endGesture :: "AppState \<Rightarrow> AppState" where
  "endGesture s =
     s\<lparr>isDrawing := False, isPanning := False, creationStart := None,
       dragInfo := (dragInfo s)\<lparr>isDragging := False, initialPositions := []\<rparr>,
       resizeInfo := (resizeInfo s)\<lparr>isResizing := False\<rparr>,
       rotateInfo := (rotateInfo s)\<lparr>isRotating := False\<rparr>\<rparr>"

text \<open>The test of line 720 on the element found, \<open>undefined\<close> when none has the
  identifier.\<close>

definition isDegenerate :: "BoardElement option \<Rightarrow> bool" where
  "isDegenerate found =
     (case found of
        None \<Rightarrow> False
      | Some el \<Rightarrow> truthy (width el) \<and> numLess (width el) 5 \<and>
                   truthy (height el) \<and> numLess (height el) 5)"

definition handleMouseUp :: "AppState \<Rightarrow> error + AppState" where
  "handleMouseUp s =
     (if isDrawing s then
        (case elements s of
           [] \<Rightarrow> Inl TypeError
         | _ # _ \<Rightarrow>
             let lastEl = last (elements s)
             in case points lastEl of
                  None \<Rightarrow> Inr (endGesture s)
                | Some ps \<Rightarrow>
                    let normalized = normalizeDrawing lastEl;
                        newEls = map (\<lambda>el. if el_id el = el_id lastEl then normalized else el)
                                   (elements s)
                    in Inr (endGesture (addToHistory newEls (s\<lparr>elements := newEls\<rparr>))))
      else if creationStart s \<noteq> None \<and> length (selectedIds s) = 1 then
        (let found = find (\<lambda>e. el_id e = selectedIds s ! 0) (elements s)
         in if isDegenerate found then
              Inr (endGesture
                (s\<lparr>elements := filter (\<lambda>e. el_id e \<noteq> selectedIds s ! 0) (elements s),
                   selectedIds := []\<rparr>))
            else Inr (endGesture (addToHistory (elements s) s)))
      else if isDragging (dragInfo s) \<or> isResizing (resizeInfo s) \<or> isRotating (rotateInfo s)
      then Inr (endGesture (addToHistory (elements s) s))
      else Inr (endGesture s))"

subsection \<open>Handle grab and text edits (lines 801-817, 837-839)\<close>


definition handleContentChange :: "string \<Rightarrow> string \<Rightarrow> AppState \<Rightarrow> AppState" where
  "handleContentChange i newContent s =
     s\<lparr>elements :=
         map (\<lambda>el. if el_id el = i then el\<lparr>content := Some newContent\<rparr> else el) (elements s)\<rparr>"

subsection \<open>Example data\<close>

text \<open>A rectangle as \<open>newShape\<close> makes it, with the given identifier, box and z-index;
  used for the concrete instances below.\<close>

definition exampleRect :: "string \<Rightarrow> real \<Rightarrow> real \<Rightarrow> real \<Rightarrow> real \<Rightarrow> int \<Rightarrow> BoardElement" where
  "exampleRect i x0 y0 w h z =
     \<lparr>el_id = i, el_type = OfTool Rect, el_x = x0, el_y = y0, width = Some w, height = Some h,
      rotation = Some 0, zIndex = z, content = None, points = None,
      color = Some ''transparent'', fillColor = Some ''transparent'',
      strokeColor = Some ''#000000'', textColor = None, strokeWidth = Some 3,
      fontSize = Some 18\<rparr>"

text \<open>A mounted 800 by 600 container at the window's origin, and the board with the
  collections \<open>cs\<close> committed one after the other, the given selection and tool.\<close>

definition exampleContainer :: "DOMRect option" where
  "exampleContainer = Some \<lparr>rect_left = 0, rect_top = 0, rect_width = 800, rect_height = 600\<rparr>"

definition exampleBoard :: "BoardElement list list \<Rightarrow> string list \<Rightarrow> ToolType \<Rightarrow> AppState" where
  "exampleBoard cs sel tool =
     (commits cs (initialState exampleContainer))\<lparr>selectedIds := sel, activeTool := tool\<rparr>"

text \<open>A left-button event at a client position, over the background.\<close>

definition mouseAt :: "real \<Rightarrow> real \<Rightarrow> MouseEvent" where
  "mouseAt cx cy =
     \<lparr>button = 0, clientX = cx, clientY = cy, shiftKey = False, targetIsBackground = True\<rparr>"

text \<open>A supply of identifiers: \<open>''u''\<close>, \<open>''ux''\<close>, \<open>''uxx''\<close>, ...\<close>

definition exampleUuid :: "nat \<Rightarrow> string" where
  "exampleUuid k = CHR ''u'' # replicate k CHR ''x''"

section \<open>Properties of the history\<close>

lemma addToHistory_fields:
  "history (addToHistory c s) = take (historyStep s + 1) (history s) @ [c]"
  "historyStep (addToHistory c s) = min (historyStep s + 1) (length (history s))"
  "elements (addToHistory c s) = c"
  by (simp_all add: addToHistory_def historyEffect_def Let_def nth_append min_def)

lemma historyStep_in_range:
  "historyStep (addToHistory c s) < length (history (addToHistory c s))"
  "historyStep s < length (history s) \<Longrightarrow>
     historyStep (handleUndo s) < length (history (handleUndo s))"
  "historyStep s < length (history s) \<Longrightarrow>
     historyStep (handleRedo s) < length (history (handleRedo s))"
  by (auto simp: addToHistory_def handleUndo_def handleRedo_def historyEffect_def Let_def)

lemma addToHistory_ok: "history_ok (addToHistory c s)"
  by (simp add: history_ok_def addToHistory_def historyEffect_def Let_def nth_append min_def)

lemma handleUndo_ok:
  "history_ok s \<Longrightarrow>
     handleUndo s = s\<lparr>historyStep := historyStep s - 1,
                      elements := history s ! (historyStep s - 1)\<rparr>"
  by (cases s) (auto simp: history_ok_def handleUndo_def historyEffect_def)

lemma handleRedo_ok:
  "history_ok s \<Longrightarrow>
     handleRedo s = s\<lparr>historyStep := min (historyStep s + 1) (length (history s) - 1),
                      elements := history s ! min (historyStep s + 1) (length (history s) - 1)\<rparr>"
proof (cases "historyStep s < length (history s) - 1")
  case True
  then have "min (historyStep s + 1) (length (history s) - 1) = historyStep s + 1"
    by simp
  moreover have "handleRedo s = s\<lparr>historyStep := historyStep s + 1,
      elements := history s ! (historyStep s + 1)\<rparr>"
    using True by (simp add: handleRedo_def historyEffect_def)
  ultimately show ?thesis by simp
next
  case False
  assume ok: "history_ok s"
  with False have m: "min (historyStep s + 1) (length (history s) - 1) = historyStep s"
    by (auto simp: history_ok_def)
  have "s\<lparr>historyStep := historyStep s, elements := history s ! historyStep s\<rparr> = s"
    using ok by (cases s) (simp add: history_ok_def)
  with False m show ?thesis by (simp add: handleRedo_def)
qed

lemma undo_funpow:
  "history_ok s \<Longrightarrow>
     (handleUndo ^^ k) s = s\<lparr>historyStep := historyStep s - k,
                             elements := history s ! (historyStep s - k)\<rparr>"
proof (induction k)
  case 0
  then show ?case by (cases s) (simp add: history_ok_def)
next
  case (Suc k)
  let ?t = "s\<lparr>historyStep := historyStep s - k, elements := history s ! (historyStep s - k)\<rparr>"
  have ok: "history_ok ?t"
    using Suc.prems by (simp add: history_ok_def less_imp_diff_less)
  have "(handleUndo ^^ Suc k) s = handleUndo ?t"
    using Suc by simp
  also have "\<dots> = s\<lparr>historyStep := historyStep s - Suc k,
                     elements := history s ! (historyStep s - Suc k)\<rparr>"
    by (simp add: handleUndo_ok [OF ok])
  finally show ?case .
qed

lemma redo_funpow:
  "history_ok s \<Longrightarrow>
     (handleRedo ^^ k) s =
       s\<lparr>historyStep := min (historyStep s + k) (length (history s) - 1),
         elements := history s ! min (historyStep s + k) (length (history s) - 1)\<rparr>"
proof (induction k)
  case 0
  then have "min (historyStep s) (length (history s) - 1) = historyStep s"
    by (auto simp: history_ok_def)
  with 0 show ?case by (cases s) (simp add: history_ok_def)
next
  case (Suc k)
  let ?m = "min (historyStep s + k) (length (history s) - 1)"
  let ?t = "s\<lparr>historyStep := ?m, elements := history s ! ?m\<rparr>"
  have ok: "history_ok ?t"
    using Suc.prems by (auto simp: history_ok_def min_def)
  have m: "min (?m + 1) (length (history s) - 1)
             = min (historyStep s + Suc k) (length (history s) - 1)"
    by simp
  have "(handleRedo ^^ Suc k) s = handleRedo ?t"
    using Suc by simp
  also have "\<dots> = s\<lparr>historyStep := min (historyStep s + Suc k) (length (history s) - 1),
       elements := history s ! min (historyStep s + Suc k) (length (history s) - 1)\<rparr>"
    unfolding handleRedo_ok [OF ok] using m by simp
  finally show ?case .
qed

lemma commits_snoc: "commits (cs @ [c]) s = addToHistory c (commits cs s)"
  by (simp add: commits_def)

lemma commits_initial:
  "history (commits cs (initialState r)) = [] # cs \<and>
   historyStep (commits cs (initialState r)) = length cs \<and>
   history_ok (commits cs (initialState r))"
proof (induction cs rule: rev_induct)
  case Nil
  then show ?case by (simp add: commits_def initialState_def history_ok_def)
next
  case (snoc c cs)
  then show ?case
    by (simp add: commits_snoc addToHistory_fields addToHistory_ok)
qed


text \<open>
  C2. The history is linear. \<open>addToHistory\<close> keeps the snapshots up to the cursor, appends
  the new collection and moves the cursor to the new last index. \<open>handleUndo\<close> moves the
  cursor down by one exactly when it is above 0, \<open>handleRedo\<close> moves it up by one exactly
  when it is below the last index, and each leaves the state alone otherwise. Starting from
  the initial state, after the commits \<open>cs\<close> (N of them) N undos show the empty collection,
  N redos after them give back the state after the commits, which shows the last committed
  collection, and a redo directly after a commit that follows an undo changes nothing: the
  commit kept only the snapshots up to the cursor the undo left.
\<close>

theorem history_linear:
  "history (addToHistory c s) = take (historyStep s + 1) (history s) @ [c] \<and>
   historyStep (addToHistory c s) = length (history (addToHistory c s)) - 1 \<and>
   elements (addToHistory c s) = c \<and>
   history (handleUndo s) = history s \<and>
   historyStep (handleUndo s) = (if 0 < historyStep s then historyStep s - 1 else historyStep s) \<and>
   (if 0 < historyStep s then True else handleUndo s = s) \<and>
   history (handleRedo s) = history s \<and>
   historyStep (handleRedo s) =
     (if historyStep s < length (history s) - 1 then historyStep s + 1 else historyStep s) \<and>
   (if historyStep s < length (history s) - 1 then True else handleRedo s = s) \<and>
   elements ((handleUndo ^^ length cs) (commits cs (initialState r))) = [] \<and>
   historyStep ((handleUndo ^^ length cs) (commits cs (initialState r))) = 0 \<and>
   (handleRedo ^^ length cs) ((handleUndo ^^ length cs) (commits cs (initialState r)))
     = commits cs (initialState r) \<and>
   elements (commits cs (initialState r)) = last ([] # cs) \<and>
   history (addToHistory c (handleUndo s))
     = take (historyStep (handleUndo s) + 1) (history s) @ [c] \<and>
   handleRedo (addToHistory c (handleUndo s)) = addToHistory c (handleUndo s)"
proof -
  let ?sN = "commits cs (initialState r)"
  let ?n = "length cs"
  have commit: "history (addToHistory c s) = take (historyStep s + 1) (history s) @ [c]"
    "historyStep (addToHistory c s) = length (history (addToHistory c s)) - 1"
    "elements (addToHistory c s) = c" for c s
    by (simp_all add: addToHistory_fields min_def)
  have un: "history (handleUndo s) = history s"
    "historyStep (handleUndo s) = (if 0 < historyStep s then historyStep s - 1 else historyStep s)"
    "(if 0 < historyStep s then True else handleUndo s = s)"
    by (simp_all add: handleUndo_def historyEffect_def)
  have re: "history (handleRedo s) = history s"
    "historyStep (handleRedo s) =
       (if historyStep s < length (history s) - 1 then historyStep s + 1 else historyStep s)"
    "(if historyStep s < length (history s) - 1 then True else handleRedo s = s)" for s
    by (simp_all add: handleRedo_def historyEffect_def)
  have init: "history ?sN = [] # cs" "historyStep ?sN = ?n" "history_ok ?sN"
    using commits_initial [of cs r] by simp_all
  have undone: "(handleUndo ^^ ?n) ?sN = ?sN\<lparr>historyStep := 0, elements := []\<rparr>"
    using undo_funpow [OF init(3), of ?n] init(1,2) by simp
  have back_ok: "history_ok (?sN\<lparr>historyStep := 0, elements := []\<rparr>)"
    using init(1) by (simp add: history_ok_def)
  have "(handleRedo ^^ ?n) (?sN\<lparr>historyStep := 0, elements := []\<rparr>)
          = ?sN\<lparr>historyStep := ?n, elements := history ?sN ! ?n\<rparr>"
    using redo_funpow [OF back_ok, of ?n] init(1) by simp
  also have "\<dots> = ?sN"
    using init by (cases ?sN) (simp add: history_ok_def)
  finally have forth: "(handleRedo ^^ ?n) ((handleUndo ^^ ?n) ?sN) = ?sN"
    using undone by simp
  have shown: "elements ?sN = last ([] # cs)"
    using init by (simp add: history_ok_def last_conv_nth del: last.simps)
  have branch: "handleRedo (addToHistory c (handleUndo s)) = addToHistory c (handleUndo s)"
    using re(3) [of "addToHistory c (handleUndo s)"] commit(2) [of c "handleUndo s"]
    by (simp split: if_splits)
  show ?thesis
    using commit [of c s] un re [of s] undone forth shown branch
      commit(1) [of c "handleUndo s"]
    by simp
qed


theorem history_linear_witness:
  "handleRedo ((handleUndo ^^ 2) (commits [[exampleRect ''a'' 0 0 50 50 1], []] (initialState None)))
     \<noteq> (handleUndo ^^ 2) (commits [[exampleRect ''a'' 0 0 50 50 1], []] (initialState None)) \<and>
   elements ((handleUndo ^^ 2)
     (commits [[exampleRect ''a'' 0 0 50 50 1], []] (initialState None))) = [] \<and>
   elements ((handleRedo ^^ 2) ((handleUndo ^^ 2)
     (commits [[exampleRect ''a'' 0 0 50 50 1], []] (initialState None)))) = [] \<and>
   elements (handleRedo ((handleUndo ^^ 2)
     (commits [[exampleRect ''a'' 0 0 50 50 1], []] (initialState None))))
       = [exampleRect ''a'' 0 0 50 50 1]"
  using history_linear [of "[]" "initialState None"
      "[[exampleRect ''a'' 0 0 50 50 1], []]" None]
    history_linear [of "[]" "(handleUndo ^^ 2)
      (commits [[exampleRect ''a'' 0 0 50 50 1], []] (initialState None))" "[]" None]
  by (simp add: commits_def addToHistory_def handleUndo_def handleRedo_def historyEffect_def
      initialState_def numeral_2_eq_2)

section \<open>Text edits and paste\<close>

text \<open>
  C8. \<open>handleContentChange\<close> replaces the \<open>content\<close> of the elements whose identifier
  matches and nothing else: every other field of such an element, every other element and
  every other hook keep their values; in particular the snapshots and the cursor do. So the
  edit is no step of its own: an undo after it gives the state an undo without it gives.
\<close>

theorem content_change_frame:
  "length (elements (handleContentChange i t s)) = length (elements s) \<and>
   (\<forall>k < length (elements s).
      elements (handleContentChange i t s) ! k =
        (if el_id (elements s ! k) = i then (elements s ! k)\<lparr>content := Some t\<rparr>
         else elements s ! k)) \<and>
   history (handleContentChange i t s) = history s \<and>
   historyStep (handleContentChange i t s) = historyStep s \<and>
   handleContentChange i t s = s\<lparr>elements := elements (handleContentChange i t s)\<rparr> \<and>
   (0 < historyStep s \<and> historyStep s \<le> length (history s) \<longrightarrow>
      handleUndo (handleContentChange i t s) = handleUndo s)"
  by (auto simp: handleContentChange_def handleUndo_def historyEffect_def)

theorem content_change_frame_witness:
  "0 < historyStep (commits [[exampleRect ''a'' 0 0 50 50 1]] (initialState None)) \<and>
   historyStep (commits [[exampleRect ''a'' 0 0 50 50 1]] (initialState None))
     \<le> length (history (commits [[exampleRect ''a'' 0 0 50 50 1]] (initialState None))) \<and>
   elements (handleContentChange ''a'' ''hello''
       (commits [[exampleRect ''a'' 0 0 50 50 1]] (initialState None)))
     = [(exampleRect ''a'' 0 0 50 50 1)\<lparr>content := Some ''hello''\<rparr>] \<and>
   elements (handleUndo (handleContentChange ''a'' ''hello''
       (commits [[exampleRect ''a'' 0 0 50 50 1]] (initialState None)))) = []"
  using content_change_frame [of "''a''" "''hello''"
      "commits [[exampleRect ''a'' 0 0 50 50 1]] (initialState None)"]
  by (simp add: commits_def addToHistory_def handleUndo_def historyEffect_def
      handleContentChange_def initialState_def exampleRect_def)


lemma pasteListener_history:
  "history (pasteListener newId text captured s) = history s \<and>
   historyStep (pasteListener newId text captured s) = historyStep s"
  by (simp add: pasteListener_def Let_def split: option.splits)

lemma addToHistoryOf_current: "addToHistoryOf s c s = addToHistory c s"
  by (simp add: addToHistoryOf_def addToHistory_def)

text \<open>
  With a callback of the current render \<open>handlePaste\<close> appends the element and commits the
  new collection.
\<close>

lemma handlePaste_current:
  "t \<noteq> [] \<Longrightarrow>
     handlePaste newId (Some t) s s =
       addToHistory (elements s @ [createTextElementAtCenter newId t s])
         (s\<lparr>elements := elements s @ [createTextElementAtCenter newId t s]\<rparr>)"
proof -
  have same: "s\<lparr>containerRef := containerRef s\<rparr> = s" by (cases s) simp
  assume "t \<noteq> []"
  then show ?thesis
    by (simp add: handlePaste_def Let_def same addToHistoryOf_def addToHistory_def)
qed

text \<open>
  C9 after a gesture. On the empty board a rectangle \<open>r1\<close> is dragged out from
  \<open>(100,100)\<close> to \<open>(150,140)\<close>; the move is the last render in which \<open>elements\<close> changed
  identity, with the history \<open>[[]]\<close> and the cursor 0, and the pointer-up commits that
  same array: history \<open>[[], [r1]]\<close>, cursor 1. A paste through the window's listener
  (installed at the first render, when the board was empty) then appends the note and
  leaves the history and the cursor as they are. A paste through
  \<open>handlePaste\<close> appends the note too, but its callback is still the one of the move: the
  history becomes \<open>[[], [r1, note]]\<close> with the cursor 1, so the snapshot of the gesture
  is replaced, no entry is added, and an undo shows the empty board instead of \<open>[r1]\<close>.
\<close>

theorem paste_after_gesture:
  "history (projr (handleMouseMove (mouseAt 150 140)
       (handleMouseDown ''r1'' (mouseAt 100 100) (exampleBoard [] [] Rect)))) = [[]] \<and> historyStep (projr (handleMouseMove (mouseAt 150 140)
       (handleMouseDown ''r1'' (mouseAt 100 100) (exampleBoard [] [] Rect)))) = 0 \<and>
   \<not> isl (handleMouseUp (projr (handleMouseMove (mouseAt 150 140)
       (handleMouseDown ''r1'' (mouseAt 100 100) (exampleBoard [] [] Rect))))) \<and>
   elements (projr (handleMouseUp (projr (handleMouseMove (mouseAt 150 140)
       (handleMouseDown ''r1'' (mouseAt 100 100) (exampleBoard [] [] Rect)))))) = elements (projr (handleMouseMove (mouseAt 150 140)
       (handleMouseDown ''r1'' (mouseAt 100 100) (exampleBoard [] [] Rect)))) \<and>
   map el_id (elements (projr (handleMouseMove (mouseAt 150 140)
       (handleMouseDown ''r1'' (mouseAt 100 100) (exampleBoard [] [] Rect))))) = [''r1''] \<and>
   history (projr (handleMouseUp (projr (handleMouseMove (mouseAt 150 140)
       (handleMouseDown ''r1'' (mouseAt 100 100) (exampleBoard [] [] Rect)))))) = [[], elements (projr (handleMouseMove (mouseAt 150 140)
       (handleMouseDown ''r1'' (mouseAt 100 100) (exampleBoard [] [] Rect))))] \<and>
   historyStep (projr (handleMouseUp (projr (handleMouseMove (mouseAt 150 140)
       (handleMouseDown ''r1'' (mouseAt 100 100) (exampleBoard [] [] Rect)))))) = 1 \<and>
   map el_id (elements (pasteListener ''n1'' (Some ''note'') []
       (projr (handleMouseUp (projr (handleMouseMove (mouseAt 150 140)
       (handleMouseDown ''r1'' (mouseAt 100 100) (exampleBoard [] [] Rect)))))))) = [''r1'', ''n1''] \<and>
   history (pasteListener ''n1'' (Some ''note'') [] (projr (handleMouseUp (projr (handleMouseMove (mouseAt 150 140)
       (handleMouseDown ''r1'' (mouseAt 100 100) (exampleBoard [] [] Rect)))))))
     = [[], elements (projr (handleMouseMove (mouseAt 150 140)
       (handleMouseDown ''r1'' (mouseAt 100 100) (exampleBoard [] [] Rect))))] \<and>
   historyStep (pasteListener ''n1'' (Some ''note'') [] (projr (handleMouseUp (projr (handleMouseMove (mouseAt 150 140)
       (handleMouseDown ''r1'' (mouseAt 100 100) (exampleBoard [] [] Rect)))))))
     = 1 \<and>
   map el_id (elements (handlePaste ''n1'' (Some ''note'') (projr (handleMouseMove (mouseAt 150 140)
       (handleMouseDown ''r1'' (mouseAt 100 100) (exampleBoard [] [] Rect)))) (projr (handleMouseUp (projr (handleMouseMove (mouseAt 150 140)
       (handleMouseDown ''r1'' (mouseAt 100 100) (exampleBoard [] [] Rect))))))))
     = [''r1'', ''n1''] \<and>
   map (map el_id) (history (handlePaste ''n1'' (Some ''note'') (projr (handleMouseMove (mouseAt 150 140)
       (handleMouseDown ''r1'' (mouseAt 100 100) (exampleBoard [] [] Rect)))) (projr (handleMouseUp (projr (handleMouseMove (mouseAt 150 140)
       (handleMouseDown ''r1'' (mouseAt 100 100) (exampleBoard [] [] Rect))))))))
     = [[], [''r1'', ''n1'']] \<and>
   historyStep (handlePaste ''n1'' (Some ''note'') (projr (handleMouseMove (mouseAt 150 140)
       (handleMouseDown ''r1'' (mouseAt 100 100) (exampleBoard [] [] Rect)))) (projr (handleMouseUp (projr (handleMouseMove (mouseAt 150 140)
       (handleMouseDown ''r1'' (mouseAt 100 100) (exampleBoard [] [] Rect))))))) = 1 \<and>
   elements (handleUndo (handlePaste ''n1'' (Some ''note'') (projr (handleMouseMove (mouseAt 150 140)
       (handleMouseDown ''r1'' (mouseAt 100 100) (exampleBoard [] [] Rect)))) (projr (handleMouseUp (projr (handleMouseMove (mouseAt 150 140)
       (handleMouseDown ''r1'' (mouseAt 100 100) (exampleBoard [] [] Rect))))))))
     = [] \<and>
   handleContextMenuAction exampleUuid (Some ''note'') (projr (handleMouseMove (mouseAt 150 140)
       (handleMouseDown ''r1'' (mouseAt 100 100) (exampleBoard [] [] Rect)))) ''paste'' None
       (projr (handleMouseUp (projr (handleMouseMove (mouseAt 150 140)
       (handleMouseDown ''r1'' (mouseAt 100 100) (exampleBoard [] [] Rect))))))
     = Some (handlePaste ''u'' (Some ''note'') (projr (handleMouseMove (mouseAt 150 140)
       (handleMouseDown ''r1'' (mouseAt 100 100) (exampleBoard [] [] Rect)))) (projr (handleMouseUp (projr (handleMouseMove (mouseAt 150 140)
       (handleMouseDown ''r1'' (mouseAt 100 100) (exampleBoard [] [] Rect)))))))"
  by (simp add: exampleBoard_def commits_def initialState_def exampleContainer_def
      mouseAt_def handleMouseDown_def isDrawingMode_def newShape_def getMousePos_def
      screenToWorld_def handleMouseMove_def createGeometry_def handleMouseUp_def
      isDegenerate_def truthy_def numLess_def addToHistory_def historyEffect_def
      endGesture_def pasteListener_def handlePaste_def addToHistoryOf_def
      createTextElementAtCenter_def handleUndo_def handleContextMenuAction_def
      exampleUuid_def Let_def)

section \<open>Pointer-down with the drawing tools\<close>

text \<open>
  C10. A pointer-down with the highlighter creates no element when it is the right button
  or a resize or rotation is in progress, and otherwise appends one element with
  \<open>zIndex = 0\<close>, which is at most the \<open>zIndex\<close> of every element whose \<open>zIndex\<close> is
  positive, however many elements there are. With the pen the appended element has
  \<open>zIndex = (number of elements) + 1\<close>.
\<close>

theorem drawing_zIndex:
  "(activeTool s = Highlighter \<longrightarrow>
      (if button e = 2 \<or> isResizing (resizeInfo s) \<or> isRotating (rotateInfo s)
       then elements (handleMouseDown newId e s) = elements s
       else \<exists>el. elements (handleMouseDown newId e s) = elements s @ [el] \<and>
              el_id el = newId \<and> el_type el = OfTool Highlighter \<and> zIndex el = 0 \<and>
              (\<forall>other \<in> set (elements s). 0 < zIndex other \<longrightarrow> zIndex el \<le> zIndex other))) \<and>
   (activeTool s = Pen \<longrightarrow>
      (if button e = 2 \<or> isResizing (resizeInfo s) \<or> isRotating (rotateInfo s)
       then elements (handleMouseDown newId e s) = elements s
       else \<exists>el. elements (handleMouseDown newId e s) = elements s @ [el] \<and>
              el_id el = newId \<and> el_type el = OfTool Pen \<and>
              zIndex el = int (length (elements s)) + 1))"
  by (auto simp: handleMouseDown_def isDrawingMode_def newDrawing_def Let_def)

theorem drawing_zIndex_witness:
  "activeTool ((initialState None)\<lparr>activeTool := Highlighter,
       elements := [exampleRect ''a'' 0 0 50 50 1]\<rparr>) = Highlighter \<and>
   activeTool ((initialState None)\<lparr>activeTool := Pen,
       elements := [exampleRect ''a'' 0 0 50 50 1]\<rparr>) = Pen \<and>
   map zIndex (elements (handleMouseDown ''h1''
       \<lparr>button = 0, clientX = 10, clientY = 10, shiftKey = False, targetIsBackground = True\<rparr>
       ((initialState None)\<lparr>activeTool := Highlighter,
          elements := [exampleRect ''a'' 0 0 50 50 1]\<rparr>))) = [1, 0] \<and>
   map zIndex (elements (handleMouseDown ''p1''
       \<lparr>button = 0, clientX = 10, clientY = 10, shiftKey = False, targetIsBackground = True\<rparr>
       ((initialState None)\<lparr>activeTool := Pen,
          elements := [exampleRect ''a'' 0 0 50 50 1]\<rparr>))) = [1, 2]"
  using drawing_zIndex [of "(initialState None)\<lparr>activeTool := Highlighter,
       elements := [exampleRect ''a'' 0 0 50 50 1]\<rparr>"
      "\<lparr>button = 0, clientX = 10, clientY = 10, shiftKey = False, targetIsBackground = True\<rparr>"
      "''h1''"]
    drawing_zIndex [of "(initialState None)\<lparr>activeTool := Pen,
       elements := [exampleRect ''a'' 0 0 50 50 1]\<rparr>"
      "\<lparr>button = 0, clientX = 10, clientY = 10, shiftKey = False, targetIsBackground = True\<rparr>"
      "''p1''"]
  by (auto simp: initialState_def exampleRect_def)


section \<open>Resizing\<close>





section \<open>Alignment\<close>

lemma Math_min_Min: "vs \<noteq> [] \<Longrightarrow> Math_min vs = Min (set vs)"
  by (cases vs) (simp_all add: Math_min_def Min.set_eq_fold [symmetric])

lemma Math_max_Max: "vs \<noteq> [] \<Longrightarrow> Math_max vs = Max (set vs)"
  by (cases vs) (simp_all add: Math_max_def Max.set_eq_fold [symmetric])








section \<open>Normalization of drawings\<close>

lemma normalizeDrawing_box:
  assumes "points el = Some ps" "ps \<noteq> []"
  shows "normalizeDrawing el =
     el\<lparr>el_x := Min (pt_x ` set ps) - 5,
        el_y := Min (pt_y ` set ps) - 5,
        width := Some (max 20 (Max (pt_x ` set ps) - Min (pt_x ` set ps) + 2 * 5)),
        height := Some (max 20 (Max (pt_y ` set ps) - Min (pt_y ` set ps) + 2 * 5)),
        points := Some (map (\<lambda>p. \<lparr>pt_x = pt_x p - Min (pt_x ` set ps) + 5,
                                   pt_y = pt_y p - Min (pt_y ` set ps) + 5\<rparr>) ps)\<rparr>"
  using assms by (simp add: normalizeDrawing_def Let_def Math_min_Min Math_max_Max)


lemma mouseUp_drawing:
  assumes "isDrawing s" "elements s \<noteq> []" "points (last (elements s)) = Some ps"
  shows "\<exists>s'. handleMouseUp s = Inr s' \<and>
     length (elements s') = length (elements s) \<and>
     last (elements s') = normalizeDrawing (last (elements s)) \<and>
     history s' = take (historyStep s + 1) (history s) @ [elements s']"
proof -
  let ?newEls = "map (\<lambda>el. if el_id el = el_id (last (elements s))
                            then normalizeDrawing (last (elements s)) else el) (elements s)"
  let ?s' = "endGesture (addToHistory ?newEls (s\<lparr>elements := ?newEls\<rparr>))"
  have run: "handleMouseUp s = Inr ?s'"
    using assms by (simp add: handleMouseUp_def Let_def list.case_eq_if)
  have els: "elements ?s' = ?newEls" "history ?s' = take (historyStep s + 1) (history s) @ [?newEls]"
    by (simp_all add: endGesture_def addToHistory_fields)
  have "last ?newEls = normalizeDrawing (last (elements s))"
    using assms(2) by (simp add: last_map)
  with run els show ?thesis by simp
qed


text \<open>
  C5, as the code has it. For a freehand element with a non-empty point list,
  normalization takes the tight bounding box of the points, sets \<open>x = minX - 5\<close> and
  \<open>y = minY - 5\<close>, sets the width to \<open>max(20, span + 2 * 5)\<close> and the height likewise,
  and rewrites each point as \<open>(p.x - minX + 5, p.y - minY + 5)\<close>; the other fields stay.
  For the points \<open>(10,10), (50,10), (50,50)\<close> the result has \<open>x = 5\<close>, \<open>y = 5\<close>,
  width and height 50 and first point \<open>(5,5)\<close>. A pointer-up while drawing puts the
  normalized element in the place of the last element and commits the collection.
\<close>

theorem normalize_padded_box:
  assumes "points el = Some ps" "ps \<noteq> []"
  shows "normalizeDrawing el =
       el\<lparr>el_x := Min (pt_x ` set ps) - 5,
          el_y := Min (pt_y ` set ps) - 5,
          width := Some (max 20 (Max (pt_x ` set ps) - Min (pt_x ` set ps) + 2 * 5)),
          height := Some (max 20 (Max (pt_y ` set ps) - Min (pt_y ` set ps) + 2 * 5)),
          points := Some (map (\<lambda>p. \<lparr>pt_x = pt_x p - Min (pt_x ` set ps) + 5,
                                     pt_y = pt_y p - Min (pt_y ` set ps) + 5\<rparr>) ps)\<rparr> \<and>
     (ps = [\<lparr>pt_x = 10, pt_y = 10\<rparr>, \<lparr>pt_x = 50, pt_y = 10\<rparr>, \<lparr>pt_x = 50, pt_y = 50\<rparr>] \<longrightarrow>
        el_x (normalizeDrawing el) = 5 \<and> el_y (normalizeDrawing el) = 5 \<and>
        width (normalizeDrawing el) = Some 50 \<and> height (normalizeDrawing el) = Some 50 \<and>
        map_option hd (points (normalizeDrawing el)) = Some \<lparr>pt_x = 5, pt_y = 5\<rparr>) \<and>
     (isDrawing s \<and> elements s \<noteq> [] \<and> last (elements s) = el \<longrightarrow>
        (\<exists>s'. handleMouseUp s = Inr s' \<and>
           length (elements s') = length (elements s) \<and>
           last (elements s') = normalizeDrawing el \<and>
           history s' = take (historyStep s + 1) (history s) @ [elements s']))"
proof -
  have box: "normalizeDrawing el =
       el\<lparr>el_x := Min (pt_x ` set ps) - 5,
          el_y := Min (pt_y ` set ps) - 5,
          width := Some (max 20 (Max (pt_x ` set ps) - Min (pt_x ` set ps) + 2 * 5)),
          height := Some (max 20 (Max (pt_y ` set ps) - Min (pt_y ` set ps) + 2 * 5)),
          points := Some (map (\<lambda>p. \<lparr>pt_x = pt_x p - Min (pt_x ` set ps) + 5,
                                     pt_y = pt_y p - Min (pt_y ` set ps) + 5\<rparr>) ps)\<rparr>"
    by (rule normalizeDrawing_box [OF assms])
  have example:
    "ps = [\<lparr>pt_x = 10, pt_y = 10\<rparr>, \<lparr>pt_x = 50, pt_y = 10\<rparr>, \<lparr>pt_x = 50, pt_y = 50\<rparr>] \<longrightarrow>
        el_x (normalizeDrawing el) = 5 \<and> el_y (normalizeDrawing el) = 5 \<and>
        width (normalizeDrawing el) = Some 50 \<and> height (normalizeDrawing el) = Some 50 \<and>
        map_option hd (points (normalizeDrawing el)) = Some \<lparr>pt_x = 5, pt_y = 5\<rparr>"
    using assms(1)
    by (simp add: normalizeDrawing_def Let_def Math_min_def Math_max_def)
  have up: "isDrawing s \<and> elements s \<noteq> [] \<and> last (elements s) = el \<longrightarrow>
        (\<exists>s'. handleMouseUp s = Inr s' \<and>
           length (elements s') = length (elements s) \<and>
           last (elements s') = normalizeDrawing el \<and>
           history s' = take (historyStep s + 1) (history s) @ [elements s'])"
    using mouseUp_drawing [of s ps] assms(1) by auto
  show ?thesis
    by (rule conjI [OF box conjI [OF example up]])
qed

theorem normalize_padded_box_witness:
  "points (last (elements (projr (handleMouseMove (mouseAt 50 50) (projr (handleMouseMove (mouseAt 50 10)
       (handleMouseDown ''p'' (mouseAt 10 10) (exampleBoard [] [] Pen))))))))
     = Some [\<lparr>pt_x = 10, pt_y = 10\<rparr>, \<lparr>pt_x = 50, pt_y = 10\<rparr>, \<lparr>pt_x = 50, pt_y = 50\<rparr>] \<and>
   isDrawing (projr (handleMouseMove (mouseAt 50 50) (projr (handleMouseMove (mouseAt 50 10)
       (handleMouseDown ''p'' (mouseAt 10 10) (exampleBoard [] [] Pen)))))) \<and> elements (projr (handleMouseMove (mouseAt 50 50) (projr (handleMouseMove (mouseAt 50 10)
       (handleMouseDown ''p'' (mouseAt 10 10) (exampleBoard [] [] Pen)))))) \<noteq> [] \<and>
   \<not> isl (handleMouseUp (projr (handleMouseMove (mouseAt 50 50) (projr (handleMouseMove (mouseAt 50 10)
       (handleMouseDown ''p'' (mouseAt 10 10) (exampleBoard [] [] Pen))))))) \<and>
   map el_x (elements (projr (handleMouseUp (projr (handleMouseMove (mouseAt 50 50) (projr (handleMouseMove (mouseAt 50 10)
       (handleMouseDown ''p'' (mouseAt 10 10) (exampleBoard [] [] Pen))))))))) = [5] \<and>
   map el_y (elements (projr (handleMouseUp (projr (handleMouseMove (mouseAt 50 50) (projr (handleMouseMove (mouseAt 50 10)
       (handleMouseDown ''p'' (mouseAt 10 10) (exampleBoard [] [] Pen))))))))) = [5] \<and>
   map width (elements (projr (handleMouseUp (projr (handleMouseMove (mouseAt 50 50) (projr (handleMouseMove (mouseAt 50 10)
       (handleMouseDown ''p'' (mouseAt 10 10) (exampleBoard [] [] Pen))))))))) = [Some 50] \<and>
   map height (elements (projr (handleMouseUp (projr (handleMouseMove (mouseAt 50 50) (projr (handleMouseMove (mouseAt 50 10)
       (handleMouseDown ''p'' (mouseAt 10 10) (exampleBoard [] [] Pen))))))))) = [Some 50] \<and>
   map points (elements (projr (handleMouseUp (projr (handleMouseMove (mouseAt 50 50) (projr (handleMouseMove (mouseAt 50 10)
       (handleMouseDown ''p'' (mouseAt 10 10) (exampleBoard [] [] Pen)))))))))
     = [Some [\<lparr>pt_x = 5, pt_y = 5\<rparr>, \<lparr>pt_x = 45, pt_y = 5\<rparr>, \<lparr>pt_x = 45, pt_y = 45\<rparr>]]"
  using normalize_padded_box [of "last (elements (projr (handleMouseMove (mouseAt 50 50) (projr (handleMouseMove (mouseAt 50 10)
       (handleMouseDown ''p'' (mouseAt 10 10) (exampleBoard [] [] Pen)))))))"
      "[\<lparr>pt_x = 10, pt_y = 10\<rparr>, \<lparr>pt_x = 50, pt_y = 10\<rparr>, \<lparr>pt_x = 50, pt_y = 50\<rparr>]" "(projr (handleMouseMove (mouseAt 50 50) (projr (handleMouseMove (mouseAt 50 10)
       (handleMouseDown ''p'' (mouseAt 10 10) (exampleBoard [] [] Pen))))))"]
  by (simp add: exampleBoard_def commits_def initialState_def exampleContainer_def
      mouseAt_def handleMouseDown_def isDrawingMode_def newDrawing_def getMousePos_def
      screenToWorld_def handleMouseMove_def orElse_def handleMouseUp_def
      normalizeDrawing_def Math_min_def Math_max_def addToHistory_def historyEffect_def
      endGesture_def Let_def)

text \<open>
  C5 as stated gives the width as the span plus the padding. A stroke of the single point
  \<open>(10,10)\<close>, drawn by a pointer-down and a pointer-up with the pen, has span 0 and gets
  width 20, not 10.
\<close>

theorem normalize_span_counterexample:
  "map points (elements (handleMouseDown ''p'' (mouseAt 10 10) (exampleBoard [] [] Pen)))
     = [Some [\<lparr>pt_x = 10, pt_y = 10\<rparr>]] \<and>
   map width (elements (projr (handleMouseUp
       (handleMouseDown ''p'' (mouseAt 10 10) (exampleBoard [] [] Pen))))) = [Some 20] \<and>
   (20::real) \<noteq> (10 - 10) + 2 * 5"
  by (simp add: exampleBoard_def commits_def initialState_def exampleContainer_def
      mouseAt_def handleMouseDown_def isDrawingMode_def newDrawing_def getMousePos_def
      screenToWorld_def handleMouseUp_def
      normalizeDrawing_def Math_min_def Math_max_def addToHistory_def historyEffect_def
      endGesture_def Let_def)


section \<open>Duplicating\<close>

lemma duplicateLoop_enumerate:
  "duplicateLoop uuid els n ts dups =
     dups @ map (\<lambda>(k, el). el\<lparr>el_id := uuid k, el_x := el_x el + 20, el_y := el_y el + 20,
                              zIndex := int n + int k + 1\<rparr>)
       (enumerate (length dups) (List.map_filter (\<lambda>i. find (\<lambda>e. el_id e = i) els) ts))"
proof (induction ts arbitrary: dups)
  case Nil
  then show ?case by (simp add: map_filter_simps)
next
  case (Cons i ts)
  show ?case
  proof (cases "find (\<lambda>e. el_id e = i) els")
    case None
    then show ?thesis using Cons.IH [of dups] by (simp add: map_filter_simps)
  next
    case (Some el)
    then show ?thesis
      using Cons.IH [of "dups @ [el\<lparr>el_id := uuid (length dups), el_x := el_x el + 20,
          el_y := el_y el + 20, zIndex := int n + int (length dups) + 1\<rparr>]"]
      by (simp add: map_filter_simps)
  qed
qed

lemma found_ids:
  "set ts \<subseteq> el_id ` set els \<Longrightarrow>
     map el_id (List.map_filter (\<lambda>i. find (\<lambda>e. el_id e = i) els) ts) = ts"
proof (induction ts)
  case Nil
  then show ?case by (simp add: map_filter_simps)
next
  case (Cons i ts)
  then obtain el where "find (\<lambda>e. el_id e = i) els = Some el"
    by (cases "find (\<lambda>e. el_id e = i) els") (auto simp: find_None_iff)
  moreover from this have "el_id el = i" by (auto simp: find_Some_iff)
  ultimately show ?case using Cons by (simp add: map_filter_simps)
qed

lemma length_found: "length (List.map_filter f ts) \<le> length ts"
  by (simp add: map_filter_def)

lemma duplicates_nth:
  assumes "k < length origs"
  shows "map (\<lambda>(k, el). el\<lparr>el_id := uuid k, el_x := el_x el + 20, el_y := el_y el + 20,
                              zIndex := int n + int k + 1\<rparr>) (enumerate 0 origs) ! k
     = (origs ! k)\<lparr>el_id := uuid k, el_x := el_x (origs ! k) + 20,
          el_y := el_y (origs ! k) + 20, zIndex := int n + 1 + int k\<rparr>"
  using assms by (simp add: nth_enumerate_eq)

lemma duplicates_ids:
  "map el_id (map (\<lambda>(k, el). el\<lparr>el_id := uuid k, el_x := el_x el + 20, el_y := el_y el + 20,
                              zIndex := int n + int k + 1\<rparr>) (enumerate 0 origs))
     = map uuid [0..<length origs]"
  by (rule nth_equalityI) (simp_all add: nth_enumerate_eq)


lemma addToHistory_eq:
  "addToHistory c s =
     s\<lparr>history := take (historyStep s + 1) (history s) @ [c],
       historyStep := min (historyStep s + 1) (length (history s)),
       elements := c\<rparr>"
  by (simp add: addToHistory_def historyEffect_def Let_def nth_append min_def)

lemma fresh_ids:
  assumes "m \<le> n" "distinct (map uuid [0..<n])" "uuid ` {0..<n} \<inter> S = {}"
  shows "distinct (map uuid [0..<m]) \<and> set (map uuid [0..<m]) \<inter> S = {}"
proof -
  from assms(2) have "inj_on uuid {0..<n}" by (simp add: distinct_map)
  moreover have sub: "{0..<m} \<subseteq> {0..<n}" using assms(1) by simp
  ultimately have "inj_on uuid {0..<m}" by (rule inj_on_subset)
  then have "distinct (map uuid [0..<m])" by (simp add: distinct_map)
  moreover have "uuid ` {0..<m} \<subseteq> uuid ` {0..<n}" using sub by (rule image_mono)
  then have "uuid ` {0..<m} \<inter> S = {}" using assms(3) by blast
  ultimately show ?thesis by simp
qed

lemma above_existing:
  assumes "\<forall>k < length D. zIndex (D ! k) = int n + 1 + int k"
    "\<forall>e \<in> set els. zIndex e \<le> int n"
  shows "\<forall>d \<in> set D. \<forall>e \<in> set els. zIndex e < zIndex d"
proof (intro ballI)
  fix d e assume "d \<in> set D" "e \<in> set els"
  then obtain k where "k < length D" "d = D ! k" by (metis in_set_conv_nth)
  with assms(1) have "zIndex d = int n + 1 + int k" by simp
  moreover have "zIndex e \<le> int n" using assms(2) \<open>e \<in> set els\<close> by simp
  ultimately show "zIndex e < zIndex d" by simp
qed

lemma duplicates_zIndex:
  assumes "k < length origs"
  shows "zIndex (map (\<lambda>(k, el). el\<lparr>el_id := uuid k, el_x := el_x el + 20, el_y := el_y el + 20,
                              zIndex := int n + int k + 1\<rparr>) (enumerate 0 origs) ! k)
     = int n + 1 + int k"
  using assms by (simp add: nth_enumerate_eq)

lemma duplicate_run:
  "handleContextMenuAction uuid clipboard pasteRender ''duplicate'' elementId s =
     Some (addToHistory
       (elements s @ duplicateLoop uuid (elements s) (length (elements s))
          (resolveTargetIds elementId (selectedIds s)) [])
       (s\<lparr>elements := elements s @ duplicateLoop uuid (elements s) (length (elements s))
            (resolveTargetIds elementId (selectedIds s)) [],
          selectedIds := map el_id (duplicateLoop uuid (elements s) (length (elements s))
            (resolveTargetIds elementId (selectedIds s)) [])\<rparr>))"
  by (simp add: handleContextMenuAction_def Let_def)

text \<open>
  C4, as the code has it. The \<open>duplicate\<close> action appends one new element for every
  target that is in the store, in the order of the targets: the \<open>k\<close>-th of them is the
  original with the \<open>k\<close>-th identifier \<open>uuidv4()\<close> returned, \<open>x + 20\<close>, \<open>y + 20\<close> and
  \<open>zIndex = (number of elements in the store) + 1 + k\<close>. When every target is in the
  store there is one new element per target. When the identifiers returned are distinct
  and none is in the store, the new identifiers are distinct and fresh. The new z-indices
  are above every existing one when no existing \<open>zIndex\<close> exceeds the number of elements.
  Afterwards the selection is the list of the new identifiers, and the collection is
  committed as one snapshot.
\<close>

theorem duplicate_action:
  "\<exists>s' dups.
     handleContextMenuAction uuid clipboard pasteRender ''duplicate'' elementId s = Some s' \<and>
     elements s' = elements s @ dups \<and>
     selectedIds s' = map el_id dups \<and>
     history s' = take (historyStep s + 1) (history s) @ [elements s'] \<and>
     (let targetIds = resolveTargetIds elementId (selectedIds s);
          origs = List.map_filter (\<lambda>i. find (\<lambda>e. el_id e = i) (elements s)) targetIds
      in length dups = length origs \<and>
         map el_id dups = map uuid [0..<length origs] \<and>
         (\<forall>k < length origs.
            dups ! k = (origs ! k)\<lparr>el_id := uuid k, el_x := el_x (origs ! k) + 20,
                         el_y := el_y (origs ! k) + 20,
                         zIndex := int (length (elements s)) + 1 + int k\<rparr>) \<and>
         (set targetIds \<subseteq> el_id ` set (elements s) \<longrightarrow>
            map el_id origs = targetIds \<and> length dups = length targetIds) \<and>
         (distinct (map uuid [0..<length targetIds]) \<and>
          uuid ` {0..<length targetIds} \<inter> el_id ` set (elements s) = {} \<longrightarrow>
            distinct (map el_id dups) \<and>
            set (map el_id dups) \<inter> el_id ` set (elements s) = {}) \<and>
         ((\<forall>e \<in> set (elements s). zIndex e \<le> int (length (elements s))) \<longrightarrow>
            (\<forall>d \<in> set dups. \<forall>e \<in> set (elements s). zIndex e < zIndex d)))"
proof -
  let ?T = "resolveTargetIds elementId (selectedIds s)"
  let ?O = "List.map_filter (\<lambda>i. find (\<lambda>e. el_id e = i) (elements s)) ?T"
  let ?n = "length (elements s)"
  let ?D = "map (\<lambda>(k, el). el\<lparr>el_id := uuid k, el_x := el_x el + 20, el_y := el_y el + 20,
                              zIndex := int ?n + int k + 1\<rparr>) (enumerate 0 ?O)"
  let ?s' = "addToHistory (elements s @ ?D)
      (s\<lparr>elements := elements s @ ?D, selectedIds := map el_id ?D\<rparr>)"
  have loop: "duplicateLoop uuid (elements s) ?n ?T [] = ?D"
    by (simp add: duplicateLoop_enumerate)
  have run: "handleContextMenuAction uuid clipboard pasteRender ''duplicate'' elementId s = Some ?s'"
    unfolding duplicate_run loop ..
  have fields: "elements ?s' = elements s @ ?D" "selectedIds ?s' = map el_id ?D"
    "history ?s' = take (historyStep s + 1) (history s) @ [elements ?s']"
    by (simp_all add: addToHistory_eq)
  have len: "length ?D = length ?O" by simp
  have ids: "map el_id ?D = map uuid [0..<length ?O]" by (rule duplicates_ids)
  have nth: "\<forall>k < length ?O.
      ?D ! k = (?O ! k)\<lparr>el_id := uuid k, el_x := el_x (?O ! k) + 20,
                  el_y := el_y (?O ! k) + 20, zIndex := int ?n + 1 + int k\<rparr>"
    by (intro allI impI) (rule duplicates_nth)
  have per_target: "set ?T \<subseteq> el_id ` set (elements s) \<longrightarrow>
      map el_id ?O = ?T \<and> length ?D = length ?T"
  proof
    assume sub: "set ?T \<subseteq> el_id ` set (elements s)"
    have eq: "map el_id ?O = ?T" by (rule found_ids [OF sub])
    have "length (map el_id ?O) = length ?O" by (rule length_map)
    then have "length ?O = length ?T" unfolding eq by (rule sym)
    then have "length ?D = length ?T" unfolding len .
    with eq show "map el_id ?O = ?T \<and> length ?D = length ?T" by (rule conjI)
  qed
  have le: "length ?O \<le> length ?T" by (rule length_found)
  have fresh: "distinct (map uuid [0..<length ?T]) \<and>
      uuid ` {0..<length ?T} \<inter> el_id ` set (elements s) = {} \<longrightarrow>
      distinct (map el_id ?D) \<and> set (map el_id ?D) \<inter> el_id ` set (elements s) = {}"
    unfolding ids using fresh_ids [OF le] by blast
  have z: "\<forall>k < length ?D. zIndex (?D ! k) = int ?n + 1 + int k"
    unfolding len by (intro allI impI) (rule duplicates_zIndex)
  have above: "(\<forall>e \<in> set (elements s). zIndex e \<le> int ?n) \<longrightarrow>
      (\<forall>d \<in> set ?D. \<forall>e \<in> set (elements s). zIndex e < zIndex d)"
    by (rule impI) (rule above_existing [OF z])
  show ?thesis
    apply (rule exI [of _ ?s'])
    apply (rule exI [of _ ?D])
    unfolding Let_def
    apply (intro conjI)
            apply (rule run)
           apply (rule fields(1))
          apply (rule fields(2))
         apply (rule fields(3))
        apply (rule len)
       apply (rule ids)
      apply (rule nth)
     apply (rule per_target)
    apply (rule fresh)
    apply (rule above)
    done
qed

theorem duplicate_action_witness:
  "set (resolveTargetIds None (selectedIds (exampleBoard [[exampleRect ''a'' 0 0 50 50 1, exampleRect ''b'' 100 10 30 30 2]]
       [''a'', ''b''] Select))) \<subseteq> el_id ` set (elements (exampleBoard [[exampleRect ''a'' 0 0 50 50 1, exampleRect ''b'' 100 10 30 30 2]]
       [''a'', ''b''] Select)) \<and>
   distinct (map exampleUuid [0..<length (resolveTargetIds None (selectedIds (exampleBoard [[exampleRect ''a'' 0 0 50 50 1, exampleRect ''b'' 100 10 30 30 2]]
       [''a'', ''b''] Select)))]) \<and>
   exampleUuid ` {0..<length (resolveTargetIds None (selectedIds (exampleBoard [[exampleRect ''a'' 0 0 50 50 1, exampleRect ''b'' 100 10 30 30 2]]
       [''a'', ''b''] Select)))}
     \<inter> el_id ` set (elements (exampleBoard [[exampleRect ''a'' 0 0 50 50 1, exampleRect ''b'' 100 10 30 30 2]]
       [''a'', ''b''] Select)) = {} \<and>
   list_all (\<lambda>e. zIndex e \<le> int (length (elements (exampleBoard
       [[exampleRect ''a'' 0 0 50 50 1, exampleRect ''b'' 100 10 30 30 2]] [''a'', ''b''] Select))))
     (elements (exampleBoard
       [[exampleRect ''a'' 0 0 50 50 1, exampleRect ''b'' 100 10 30 30 2]] [''a'', ''b''] Select)) \<and>
   map el_id (elements (the (handleContextMenuAction exampleUuid None (initialState None) ''duplicate'' None (exampleBoard [[exampleRect ''a'' 0 0 50 50 1, exampleRect ''b'' 100 10 30 30 2]]
       [''a'', ''b''] Select))))
     = [''a'', ''b'', ''u'', ''ux''] \<and>
   map el_x (elements (the (handleContextMenuAction exampleUuid None (initialState None) ''duplicate'' None (exampleBoard [[exampleRect ''a'' 0 0 50 50 1, exampleRect ''b'' 100 10 30 30 2]]
       [''a'', ''b''] Select))))
     = [0, 100, 20, 120] \<and>
   map el_y (elements (the (handleContextMenuAction exampleUuid None (initialState None) ''duplicate'' None (exampleBoard [[exampleRect ''a'' 0 0 50 50 1, exampleRect ''b'' 100 10 30 30 2]]
       [''a'', ''b''] Select))))
     = [0, 10, 20, 30] \<and>
   map zIndex (elements (the (handleContextMenuAction exampleUuid None (initialState None) ''duplicate'' None (exampleBoard [[exampleRect ''a'' 0 0 50 50 1, exampleRect ''b'' 100 10 30 30 2]]
       [''a'', ''b''] Select))))
     = [1, 2, 3, 4] \<and>
   selectedIds (the (handleContextMenuAction exampleUuid None (initialState None) ''duplicate'' None (exampleBoard [[exampleRect ''a'' 0 0 50 50 1, exampleRect ''b'' 100 10 30 30 2]]
       [''a'', ''b''] Select)))
     = [''u'', ''ux'']"
  using duplicate_action [of exampleUuid None "initialState None" None "(exampleBoard [[exampleRect ''a'' 0 0 50 50 1, exampleRect ''b'' 100 10 30 30 2]]
       [''a'', ''b''] Select)"]
  by (simp add: exampleBoard_def commits_def addToHistory_def historyEffect_def
      initialState_def exampleRect_def exampleUuid_def handleContextMenuAction_def
      resolveTargetIds_def truthyString_def Let_def atLeastLessThanSuc)

text \<open>
  C4 as stated puts a duplicate above every existing z-index. After \<open>front\<close> has raised
  the only element to \<open>zIndex = 2\<close>, its duplicate gets \<open>1 + 0 + 1 = 2\<close>, which is not
  above it.
\<close>

theorem duplicate_zIndex_counterexample:
  "map zIndex (elements (the (handleContextMenuAction exampleUuid None (initialState None) ''front'' None
       (exampleBoard [[exampleRect ''a'' 0 0 50 50 1]] [''a''] Select)))) = [2] \<and>
   map el_id (elements (the (handleContextMenuAction exampleUuid None (initialState None) ''duplicate'' None (the (handleContextMenuAction exampleUuid None (initialState None) ''front'' None
       (exampleBoard [[exampleRect ''a'' 0 0 50 50 1]] [''a''] Select))))))
     = [''a'', ''u''] \<and>
   map zIndex (elements (the (handleContextMenuAction exampleUuid None (initialState None) ''duplicate'' None (the (handleContextMenuAction exampleUuid None (initialState None) ''front'' None
       (exampleBoard [[exampleRect ''a'' 0 0 50 50 1]] [''a''] Select))))))
     = [2, 2] \<and>
   \<not> zIndex (elements (the (handleContextMenuAction exampleUuid None (initialState None) ''duplicate'' None (the (handleContextMenuAction exampleUuid None (initialState None) ''front'' None
       (exampleBoard [[exampleRect ''a'' 0 0 50 50 1]] [''a''] Select))))) ! 0)
       < zIndex (elements (the (handleContextMenuAction exampleUuid None (initialState None) ''duplicate'' None (the (handleContextMenuAction exampleUuid None (initialState None) ''front'' None
       (exampleBoard [[exampleRect ''a'' 0 0 50 50 1]] [''a''] Select))))) ! 1)"
  by (simp add: exampleBoard_def commits_def addToHistory_def historyEffect_def
      initialState_def exampleRect_def exampleUuid_def handleContextMenuAction_def
      resolveTargetIds_def truthyString_def Let_def)


section \<open>Pointer-up of a creation gesture\<close>

text \<open>
  What the pointer-up of a creation gesture does with the element it finds: the element
  is discarded when its width and height are both non-zero and below 5, and kept and
  committed otherwise.
\<close>

lemma creation_pointer_up:
  assumes "\<not> isDrawing s" "creationStart s \<noteq> None" "length (selectedIds s) = 1"
    "find (\<lambda>e. el_id e = selectedIds s ! 0) (elements s) = Some el"
    "width el = Some w" "height el = Some h"
  shows "handleMouseUp s =
     Inr (if w \<noteq> 0 \<and> w < 5 \<and> h \<noteq> 0 \<and> h < 5
          then endGesture (s\<lparr>elements := filter (\<lambda>e. el_id e \<noteq> selectedIds s ! 0) (elements s),
                 selectedIds := []\<rparr>)
          else endGesture (addToHistory (elements s) s))"
  using assms
  by (simp add: handleMouseUp_def isDegenerate_def truthy_def numLess_def Let_def)

text \<open>
  C1 at a click. With the rectangle tool on the empty board, a pointer-down at
  \<open>(100,100)\<close>, a move to \<open>(103,102)\<close> and a pointer-up leave the store empty, the
  selection empty and the history as it was. A pointer-down at \<open>(100,100)\<close> followed by
  the pointer-up alone leaves the element of width 0 and height 0 in the store, keeps it
  selected and adds a snapshot: the test of line 720 reads the width 0 as false.
\<close>

theorem degenerate_click_kept:
  "history (exampleBoard [] [] Rect) = [[]] \<and>
   \<not> isl (handleMouseUp (projr (handleMouseMove (mouseAt 103 102)
       (handleMouseDown ''r1'' (mouseAt 100 100) (exampleBoard [] [] Rect))))) \<and>
   elements (projr (handleMouseUp (projr (handleMouseMove (mouseAt 103 102)
       (handleMouseDown ''r1'' (mouseAt 100 100) (exampleBoard [] [] Rect)))))) = [] \<and>
   selectedIds (projr (handleMouseUp (projr (handleMouseMove (mouseAt 103 102)
       (handleMouseDown ''r1'' (mouseAt 100 100) (exampleBoard [] [] Rect)))))) = [] \<and>
   history (projr (handleMouseUp (projr (handleMouseMove (mouseAt 103 102)
       (handleMouseDown ''r1'' (mouseAt 100 100) (exampleBoard [] [] Rect)))))) = [[]] \<and>
   \<not> isl (handleMouseUp (handleMouseDown ''r1'' (mouseAt 100 100) (exampleBoard [] [] Rect))) \<and>
   map el_id (elements (projr (handleMouseUp (handleMouseDown ''r1'' (mouseAt 100 100) (exampleBoard [] [] Rect))))) = [''r1''] \<and>
   map width (elements (projr (handleMouseUp (handleMouseDown ''r1'' (mouseAt 100 100) (exampleBoard [] [] Rect))))) = [Some 0] \<and>
   map height (elements (projr (handleMouseUp (handleMouseDown ''r1'' (mouseAt 100 100) (exampleBoard [] [] Rect))))) = [Some 0] \<and>
   selectedIds (projr (handleMouseUp (handleMouseDown ''r1'' (mouseAt 100 100) (exampleBoard [] [] Rect)))) = [''r1''] \<and>
   history (projr (handleMouseUp (handleMouseDown ''r1'' (mouseAt 100 100) (exampleBoard [] [] Rect)))) = [[], elements (projr (handleMouseUp (handleMouseDown ''r1'' (mouseAt 100 100) (exampleBoard [] [] Rect))))] \<and>
   historyStep (projr (handleMouseUp (handleMouseDown ''r1'' (mouseAt 100 100) (exampleBoard [] [] Rect)))) = 1"
  by (simp add: exampleBoard_def commits_def initialState_def exampleContainer_def
      mouseAt_def handleMouseDown_def isDrawingMode_def newShape_def getMousePos_def
      screenToWorld_def handleMouseMove_def createGeometry_def handleMouseUp_def
      isDegenerate_def truthy_def numLess_def addToHistory_def historyEffect_def
      endGesture_def Let_def)

end
